theory Spec2Isabelle
  imports Complex_Main "HOL-Library.AList" "HOL-Library.List_Lexorder" "HOL-Library.Char_ord"
begin

section \<open>Values and tables\<close>

text \<open>
  A cell of a pandas DataFrame. Metric values are Python floats: a finite double is
  a rational (\<open>Num\<close>), \<open>Inf\<close> stands for either infinity, and \<open>NaN\<close> is the
  float pandas uses for a missing value. \<open>IntV\<close> is an integer cell (what
  \<^verbatim>\<open>astype(int)\<close> produces) and \<open>Str\<close> a string cell.
\<close>

datatype cell = Str string | Num rat | Inf | NaN | IntV int

text \<open>
  A DataFrame: its column labels in order and its rows, each row holding one cell per
  column in the order of the labels.
\<close>

record dataframe =
  columns :: "string list"
  rows :: "cell list list"

definition wf_df :: "dataframe \<Rightarrow> bool" where
  "wf_df df = (distinct (columns df) \<and> list_all (\<lambda>r. length r = length (columns df)) (rows df))"

text \<open>\<^verbatim>\<open>pd.DataFrame()\<close>: no columns and no rows.\<close>

definition DataFrame_empty :: dataframe where
  "DataFrame_empty = \<lparr>columns = [], rows = []\<rparr>"

text \<open>\<^verbatim>\<open>df.empty\<close>: true when either axis has length zero.\<close>

definition df_empty :: "dataframe \<Rightarrow> bool" where
  "df_empty df = (columns df = [] \<or> rows df = [])"

text \<open>
  The value a row holds under a column label; a label the frame does not have reads
  as missing.
\<close>

definition cell_at :: "string list \<Rightarrow> cell list \<Rightarrow> string \<Rightarrow> cell" where
  "cell_at cols r c = (case map_of (zip cols r) c of Some v \<Rightarrow> v | None \<Rightarrow> NaN)"

text \<open>The rows of a frame, each read by label.\<close>

definition row_values :: "dataframe \<Rightarrow> (string \<Rightarrow> cell) list" where
  "row_values df = map (cell_at (columns df)) (rows df)"

text \<open>The labels \<open>cols\<close> followed by those of \<open>ks\<close> not met before, in order of appearance.\<close>

definition add_labels :: "string list \<Rightarrow> string list \<Rightarrow> string list" where
  "add_labels cols ks = fold (\<lambda>k cs. if k \<in> set cs then cs else cs @ [k]) ks cols"

text \<open>
  \<^verbatim>\<open>pd.DataFrame(rows)\<close> for a list of dicts: the columns are the keys in order of first
  appearance and a key a dict lacks gives a missing value.
\<close>

definition DataFrame :: "(string \<times> cell) list list \<Rightarrow> dataframe" where
  "DataFrame ds =
    (let cols = fold (\<lambda>d cs. add_labels cs (map fst d)) ds []
     in \<lparr>columns = cols,
         rows = map (\<lambda>d. map (\<lambda>c. case map_of d c of Some v \<Rightarrow> v | None \<Rightarrow> NaN) cols) ds\<rparr>)"

text \<open>
  \<^verbatim>\<open>pd.concat([a, b], ignore_index=True)\<close>: the union of the columns, those of \<open>a\<close> first,
  and the rows of \<open>a\<close> followed by the rows of \<open>b\<close>, each laid out under the new columns.
\<close>

definition pd_concat :: "dataframe \<Rightarrow> dataframe \<Rightarrow> dataframe" where
  "pd_concat a b =
    (let cols = add_labels (columns a) (columns b)
     in \<lparr>columns = cols,
         rows = map (\<lambda>r. map (cell_at (columns a) r) cols) (rows a)
              @ map (\<lambda>r. map (cell_at (columns b) r) cols) (rows b)\<rparr>)"

section \<open>The outside world\<close>

text \<open>
  The exceptions of a run. The first four are raised by Python and pandas
  (\<open>CastError\<close>: a failed \<^verbatim>\<open>astype(int)\<close>); the others stand for what the Google
  client libraries raise when a call to the outside fails.
\<close>

datatype error =
    KeyError | IndexError | ValueError | CastError
  | CredentialFileError | RefreshError | OAuthFlowError | CredentialWriteError | BuildError
  | HttpError | ServiceAccountError | QueryError | AppendError

text \<open>Sequencing of calls that may raise, and a lookup that raises when it finds nothing.\<close>

definition ebind :: "error + 'a \<Rightarrow> ('a \<Rightarrow> error + 'b) \<Rightarrow> error + 'b" where
  "ebind m f = (case m of Inl err \<Rightarrow> Inl err | Inr x \<Rightarrow> f x)"

definition orraise :: "'a option \<Rightarrow> error \<Rightarrow> error + 'a" where
  "orraise x err = (case x of None \<Rightarrow> Inl err | Some v \<Rightarrow> Inr v)"

text \<open>The three observations \<^verbatim>\<open>authenticate\<close> makes of a credentials object.\<close>

record credentials =
  expired :: bool
  refresh_token :: bool
  valid :: bool

text \<open>
  Responses of the reporting API, as the JSON objects the client library returns: a key
  that may be absent is an option.
\<close>

record account_json =
  acc_name :: "string option"
  acc_displayName :: "string option"

datatype cell_json = CellJ (cell_value: "string option")

datatype row_json = RowJ (row_cells: "cell_json list option")

datatype header_json = HeaderJ (header_name: "string option")

record report_json =
  report_headers :: "header_json list option"
  report_rows :: "row_json list option"

datatype accounts_json = AccountsJ (accounts_key: "account_json list option")

type_synonym ymd = "int \<times> int \<times> int"

text \<open>
  What one credential set meets outside the program: its stored credentials file, the
  OAuth endpoints, and the reporting API reached through the service handle
  (\<open>None\<close>: the call raises).
\<close>

record source_env =
  credentials_file_exists :: bool
  from_authorized_user_file :: "credentials option"
  refresh :: "credentials option"
  run_local_server :: "credentials option"
  write_credentials_ok :: bool
  build_ok :: bool
  accounts_list :: "accounts_json option"
  reports_generate :: "string \<Rightarrow> ymd \<Rightarrow> ymd \<Rightarrow> report_json option"

text \<open>
  The environment of a run. \<open>clock\<close> gives the calendar day (days since 1970-01-01)
  read by the n-th call of \<^verbatim>\<open>datetime.now()\<close>; \<open>float_of_str\<close> and \<open>int_of_str\<close>
  are Python's \<^verbatim>\<open>float()\<close> and \<^verbatim>\<open>int()\<close> on strings (\<open>None\<close>: ValueError);
  \<open>cast_out_of_range\<close> is what the platform's C cast gives for a finite double outside
  the 64-bit range; the remaining fields say which calls to the warehouse succeed.
\<close>

record env =
  clock :: "nat \<Rightarrow> int"
  float_of_str :: "string \<Rightarrow> cell option"
  int_of_str :: "string \<Rightarrow> int option"
  cast_out_of_range :: "rat \<Rightarrow> int"
  source :: "nat \<Rightarrow> source_env"
  service_account_ok :: bool
  query_ok :: "string \<Rightarrow> bool"
  job_ok :: "string \<Rightarrow> bool"
  append_ok :: "dataframe \<Rightarrow> bool"

text \<open>A row of the warehouse table: its fields by name.\<close>

type_synonym wh_row = "(string \<times> cell) list"

datatype event =
    AccountsList nat
  | ReportsGenerate nat string ymd ymd
  | DeleteQuery string
  | DeleteCompleted
  | AppendRows dataframe

text \<open>
  The state a run changes: the warehouse table, the calls made to the outside so far
  (oldest first) and the number of clock readings taken.
\<close>

record state =
  table :: "wh_row list"
  trace :: "event list"
  ticks :: nat

definition now :: "env \<Rightarrow> state \<Rightarrow> int \<times> state" where
  "now e st = (clock e (ticks st), st\<lparr>ticks := Suc (ticks st)\<rparr>)"

definition emit :: "event \<Rightarrow> state \<Rightarrow> state" where
  "emit ev st = st\<lparr>trace := trace st @ [ev]\<rparr>"

section \<open>Calendar days\<close>

text \<open>
  The civil date of a day number (days since 1970-01-01) in the proleptic Gregorian
  calendar, which is the calendar of Python's \<^verbatim>\<open>datetime\<close>.
\<close>

definition civil_from_days :: "int \<Rightarrow> ymd" where
  "civil_from_days z0 =
    (let z = z0 + 719468;
         era = z div 146097;
         doe = z - era * 146097;
         yoe = (doe - doe div 1460 + doe div 36524 - doe div 146096) div 365;
         doy = doe - (365 * yoe + yoe div 4 - yoe div 100);
         mp = (5 * doy + 2) div 153;
         d = doy - (153 * mp + 2) div 5 + 1;
         m = (if mp < 10 then mp + 3 else mp - 9);
         y = yoe + era * 400 + (if m \<le> 2 then 1 else 0)
     in (y, m, d))"

definition digit :: "int \<Rightarrow> char" where
  "digit k = ''0123456789'' ! nat (k mod 10)"

definition pad2 :: "int \<Rightarrow> string" where
  "pad2 n = [digit (n div 10), digit n]"

definition pad4 :: "int \<Rightarrow> string" where
  "pad4 n = [digit (n div 1000), digit (n div 100), digit (n div 10), digit n]"

text \<open>\<^verbatim>\<open>strftime('%Y-%m-%d')\<close> of a day.\<close>

definition strftime :: "int \<Rightarrow> string" where
  "strftime z = (case civil_from_days z of (y, m, d) \<Rightarrow> pad4 y @ ''-'' @ pad2 m @ ''-'' @ pad2 d)"

section \<open>BigQueryClient\<close>

text \<open>
  The warehouse's \<^verbatim>\<open>WHERE date >= '<cutoff>'\<close> on one row: the row's \<open>date\<close> field is
  an ISO date string, compared as a string; a row with no date is not selected.
\<close>

definition date_ge :: "string \<Rightarrow> wh_row \<Rightarrow> bool" where
  "date_ge cutoff r = (case map_of r ''date'' of Some (Str d) \<Rightarrow> cutoff \<le> d | _ \<Rightarrow> False)"

text \<open>
  \<^verbatim>\<open>delete_yesterday_data\<close>: read the clock, format the previous day, submit the
  DELETE and wait for the job. The rows go when the job completes.
\<close>

definition delete_yesterday_data :: "env \<Rightarrow> state \<Rightarrow> (error + unit) \<times> state" where
  "delete_yesterday_data e st =
    (let (current_date, st1) = now e st;
         previous_date = strftime (current_date - 1);
         st2 = emit (DeleteQuery previous_date) st1
     in if \<not> query_ok e previous_date then (Inl QueryError, st2)
        else if \<not> job_ok e previous_date then (Inl QueryError, st2)
        else (Inr (),
              emit DeleteCompleted (st2\<lparr>table := filter (\<lambda>r. \<not> date_ge previous_date r) (table st2)\<rparr>)))"

definition int_cols :: "string list" where
  "int_cols = [''CLICKS'', ''PAGE_VIEWS'', ''TOTAL_IMPRESSIONS'', ''IMPRESSIONS'',
               ''INDIVIDUAL_AD_IMPRESSIONS'', ''MATCHED_AD_REQUESTS'', ''AD_REQUESTS'']"

text \<open>\<^verbatim>\<open>fillna(0)\<close> on one cell.\<close>

fun fillna0 :: "cell \<Rightarrow> cell" where
  "fillna0 NaN = Num 0"
| "fillna0 c = c"

text \<open>Rounding towards zero, as the cast of a double to an integer does.\<close>

definition trunc :: "rat \<Rightarrow> int" where
  "trunc q = (if 0 \<le> q then \<lfloor>q\<rfloor> else \<lceil>q\<rceil>)"

definition in_int64 :: "int \<Rightarrow> bool" where
  "in_int64 n = (- (2 ^ 63) \<le> n \<and> n < 2 ^ 63)"

text \<open>
  \<^verbatim>\<open>astype(int)\<close> on one cell; \<open>None\<close> when pandas raises (a non-finite float, a
  string that is no integer literal).
\<close>

fun astype_int :: "env \<Rightarrow> cell \<Rightarrow> cell option" where
  "astype_int e (Num q) = Some (IntV (if in_int64 (trunc q) then trunc q else cast_out_of_range e q))"
| "astype_int e (IntV n) = Some (IntV n)"
| "astype_int e (Str s) = map_option IntV (int_of_str e s)"
| "astype_int e Inf = None"
| "astype_int e NaN = None"

definition coerce_row :: "env \<Rightarrow> string list \<Rightarrow> cell list \<Rightarrow> cell list option" where
  "coerce_row e cols r =
     those (map2 (\<lambda>c v. if c \<in> set int_cols then astype_int e (fillna0 v) else Some v) cols r)"

text \<open>
  \<^verbatim>\<open>df[int_cols] = df[int_cols].fillna(0).astype(int)\<close>: selecting a label the frame does
  not have raises KeyError; a cell that cannot be cast raises and leaves the frame as it
  was; otherwise the frame holds the integer columns.
\<close>

definition coerce_int_cols :: "env \<Rightarrow> dataframe \<Rightarrow> error + dataframe" where
  "coerce_int_cols e df =
    (if \<not> set int_cols \<subseteq> set (columns df) then Inl KeyError
     else case those (map (coerce_row e (columns df)) (rows df)) of
            None \<Rightarrow> Inl CastError
          | Some rs \<Rightarrow> Inr (df\<lparr>rows := rs\<rparr>))"

definition rename_col :: "string \<Rightarrow> string" where
  "rename_col c = (if c = ''AD_REQUESTS_CTR'' then ''ctr''
                   else if c = ''COST_PER_CLICK'' then ''cpc'' else c)"

text \<open>\<^verbatim>\<open>df.rename(columns={...})\<close>: a new frame with the labels mapped.\<close>

definition rename :: "dataframe \<Rightarrow> dataframe" where
  "rename df = df\<lparr>columns := map rename_col (columns df)\<rparr>"

text \<open>The records \<^verbatim>\<open>to_gbq\<close> sends: one per row, the cells under their labels.\<close>

definition to_records :: "dataframe \<Rightarrow> wh_row list" where
  "to_records df = map (zip (columns df)) (rows df)"

text \<open>
  \<^verbatim>\<open>pandas_gbq.to_gbq(df, ..., if_exists='append')\<close>: the load either fails as a whole
  or adds every record after the rows the table has.
\<close>

definition to_gbq :: "env \<Rightarrow> dataframe \<Rightarrow> state \<Rightarrow> (error + unit) \<times> state" where
  "to_gbq e df st =
    (let st1 = emit (AppendRows df) st
     in if append_ok e df then (Inr (), st1\<lparr>table := table st1 @ to_records df\<rparr>)
        else (Inl AppendError, st1))"

text \<open>
  \<^verbatim>\<open>push_to_bigquery\<close>. The second component of the result is the caller's DataFrame
  object as the call leaves it: the column assignment writes into that object, while
  \<^verbatim>\<open>df = df.rename(...)\<close> only rebinds the local name to a new frame.
\<close>

definition push_to_bigquery ::
  "env \<Rightarrow> dataframe \<Rightarrow> state \<Rightarrow> (error + unit) \<times> dataframe \<times> state" where
  "push_to_bigquery e df st =
    (if df_empty df then (Inr (), df, st)
     else case coerce_int_cols e df of
            Inl err \<Rightarrow> (Inl err, df, st)
          | Inr df1 \<Rightarrow>
              (let df2 = rename df1 in
               case delete_yesterday_data e st of
                 (Inl err, st1) \<Rightarrow> (Inl err, df1, st1)
               | (Inr u, st1) \<Rightarrow>
                   (case to_gbq e df2 st1 of (res, st2) \<Rightarrow> (res, df1, st2))))"

section \<open>AdSenseAPI\<close>

text \<open>
  \<^verbatim>\<open>authenticate\<close>: load the stored credentials if the file exists, refresh them if they
  are expired and carry a refresh token, run the OAuth flow and save its credentials if
  there are none or they are not valid, then build the service. Nothing is caught: the
  first call that raises ends it.
\<close>

definition authenticate :: "source_env \<Rightarrow> error + unit" where
  "authenticate s =
    ebind (if credentials_file_exists s
           then ebind (orraise (from_authorized_user_file s) CredentialFileError) (\<lambda>c. Inr (Some c))
           else Inr None) (\<lambda>creds0.
    ebind (case creds0 of
             Some c \<Rightarrow> if expired c \<and> refresh_token c
                       then ebind (orraise (refresh s) RefreshError) (\<lambda>c'. Inr (Some c'))
                       else Inr creds0
           | None \<Rightarrow> Inr None) (\<lambda>creds1.
    ebind (if (case creds1 of None \<Rightarrow> True | Some c \<Rightarrow> \<not> valid c)
           then ebind (orraise (run_local_server s) OAuthFlowError)
                  (\<lambda>c. if write_credentials_ok s then Inr (Some c) else Inl CredentialWriteError)
           else Inr creds1) (\<lambda>creds2.
    if build_ok s then Inr () else Inl BuildError)))"

text \<open>The loop of \<^verbatim>\<open>list_accounts\<close> over the accounts of the response.\<close>

fun account_ids :: "account_json list \<Rightarrow> error + string list" where
  "account_ids [] = Inr []"
| "account_ids (account # rest) =
     ebind (orraise (acc_name account) KeyError) (\<lambda>account_id.
     ebind (orraise (acc_displayName account) KeyError) (\<lambda>display_name.
     ebind (account_ids rest) (\<lambda>ids. Inr (account_id # ids))))"

text \<open>The body of the \<^verbatim>\<open>try\<close> block of \<^verbatim>\<open>list_accounts\<close>.\<close>

definition list_accounts_try :: "source_env \<Rightarrow> error + string list" where
  "list_accounts_try s =
    ebind (orraise (accounts_list s) HttpError) (\<lambda>accounts.
    account_ids (case accounts_key accounts of None \<Rightarrow> [] | Some as \<Rightarrow> as))"

text \<open>\<^verbatim>\<open>list_accounts\<close>: whatever the body raises is caught and gives the empty list.\<close>

definition list_accounts :: "env \<Rightarrow> nat \<Rightarrow> state \<Rightarrow> (error + string list) \<times> state" where
  "list_accounts e n st =
    (let st1 = emit (AccountsList n) st
     in (case list_accounts_try (source e n) of
           Inl err \<Rightarrow> Inr []
         | Inr ids \<Rightarrow> Inr ids, st1))"

text \<open>\<^verbatim>\<open>row['cells'][i]['value']\<close>.\<close>

definition cell_str :: "row_json \<Rightarrow> nat \<Rightarrow> error + string" where
  "cell_str row i =
    ebind (orraise (row_cells row) KeyError) (\<lambda>cs.
    if i < length cs then orraise (cell_value (cs ! i)) KeyError else Inl IndexError)"

text \<open>
  The dict comprehension over the zipped headers and cells; a Python dict keeps the
  position of a key that is set again.
\<close>

fun metrics_dict ::
  "env \<Rightarrow> (header_json \<times> cell_json) list \<Rightarrow> (string \<times> cell) list \<Rightarrow> error + (string \<times> cell) list" where
  "metrics_dict e [] acc = Inr acc"
| "metrics_dict e ((header, c) # rest) acc =
     ebind (orraise (header_name header) KeyError) (\<lambda>k.
     ebind (orraise (cell_value c) KeyError) (\<lambda>s.
     ebind (orraise (float_of_str e s) ValueError) (\<lambda>v.
     metrics_dict e rest (AList.update k v acc))))"

text \<open>One iteration of the loop over \<^verbatim>\<open>report['rows']\<close>: the dict \<^verbatim>\<open>row_data\<close>.\<close>

definition row_data :: "env \<Rightarrow> string \<Rightarrow> report_json \<Rightarrow> row_json \<Rightarrow> error + (string \<times> cell) list" where
  "row_data e account_id report row =
    ebind (cell_str row 0) (\<lambda>report_date.
    ebind (cell_str row 1) (\<lambda>domain.
    ebind (cell_str row 2) (\<lambda>country.
    ebind (orraise (report_headers report) KeyError) (\<lambda>hs.
    ebind (orraise (row_cells row) KeyError) (\<lambda>cs.
    ebind (metrics_dict e (zip (drop 3 hs) (drop 3 cs)) []) (\<lambda>metrics.
    Inr (fold (\<lambda>(k, v). AList.update k v) metrics
           [(''account_id'', Str account_id), (''date'', Str report_date),
            (''domain'', Str domain), (''country'', Str country)])))))))"

fun report_rows_loop ::
  "env \<Rightarrow> string \<Rightarrow> report_json \<Rightarrow> row_json list \<Rightarrow> error + (string \<times> cell) list list" where
  "report_rows_loop e account_id report [] = Inr []"
| "report_rows_loop e account_id report (row # rest) =
     ebind (row_data e account_id report row) (\<lambda>d.
     ebind (report_rows_loop e account_id report rest) (\<lambda>ds. Inr (d # ds)))"

text \<open>
  The body of the \<^verbatim>\<open>try\<close> block of \<^verbatim>\<open>fetch_report\<close>, for the request of one account
  from \<open>start\<close> to \<open>end\<close>.
\<close>

definition fetch_report_try :: "env \<Rightarrow> nat \<Rightarrow> string \<Rightarrow> ymd \<Rightarrow> ymd \<Rightarrow> error + dataframe" where
  "fetch_report_try e n account_id start_date end_date =
    ebind (orraise (reports_generate (source e n) account_id start_date end_date) HttpError) (\<lambda>report.
    case report_rows report of
      None \<Rightarrow> Inr DataFrame_empty
    | Some rs \<Rightarrow> ebind (report_rows_loop e account_id report rs) (\<lambda>ds. Inr (DataFrame ds)))"

text \<open>
  \<^verbatim>\<open>fetch_report\<close>: two clock readings give the window, then the body runs under the
  handler, which turns whatever it raises into an empty frame.
\<close>

definition fetch_report :: "env \<Rightarrow> nat \<Rightarrow> string \<Rightarrow> state \<Rightarrow> (error + dataframe) \<times> state" where
  "fetch_report e n account_id st =
    (let (t, st1) = now e st;
         previous_date = t - 1;
         (current_dt, st2) = now e st1;
         start_date = civil_from_days previous_date;
         end_date = civil_from_days current_dt;
         st3 = emit (ReportsGenerate n account_id start_date end_date) st2
     in (case fetch_report_try e n account_id start_date end_date of
           Inl err \<Rightarrow> Inr DataFrame_empty
         | Inr df \<Rightarrow> Inr df, st3))"

section \<open>AdSenseReportProcessor\<close>

text \<open>
  The constructor authenticates the four credential sets in turn and then builds the
  BigQuery client; none of the calls is guarded.
\<close>

definition AdSenseReportProcessor_init :: "env \<Rightarrow> error + unit" where
  "AdSenseReportProcessor_init e =
    ebind (authenticate (source e 1)) (\<lambda>adsense_api_1.
    ebind (authenticate (source e 2)) (\<lambda>adsense_api_2.
    ebind (authenticate (source e 3)) (\<lambda>adsense_api_3.
    ebind (authenticate (source e 4)) (\<lambda>adsense_api_4.
    if service_account_ok e then Inr () else Inl ServiceAccountError))))"

text \<open>The inner loop of \<^verbatim>\<open>process_reports\<close> over the accounts of one credential set.\<close>

fun fetch_accounts ::
  "env \<Rightarrow> nat \<Rightarrow> string list \<Rightarrow> dataframe \<Rightarrow> state \<Rightarrow> (error + dataframe) \<times> state" where
  "fetch_accounts e n [] all_data st = (Inr all_data, st)"
| "fetch_accounts e n (account_id # rest) all_data st =
     (case fetch_report e n account_id st of
        (Inl err, st1) \<Rightarrow> (Inl err, st1)
      | (Inr df, st1) \<Rightarrow> fetch_accounts e n rest (pd_concat all_data df) st1)"

text \<open>One of the four blocks of \<^verbatim>\<open>process_reports\<close>.\<close>

definition fetch_source :: "env \<Rightarrow> nat \<Rightarrow> dataframe \<Rightarrow> state \<Rightarrow> (error + dataframe) \<times> state" where
  "fetch_source e n all_data st =
    (case list_accounts e n st of
       (Inl err, st1) \<Rightarrow> (Inl err, st1)
     | (Inr ids, st1) \<Rightarrow> fetch_accounts e n ids all_data st1)"

text \<open>The four blocks in sequence: what \<^verbatim>\<open>all_data\<close> holds before the final test.\<close>

definition collect_reports :: "env \<Rightarrow> state \<Rightarrow> (error + dataframe) \<times> state" where
  "collect_reports e st =
    (case fetch_source e 1 DataFrame_empty st of
       (Inl err, st1) \<Rightarrow> (Inl err, st1)
     | (Inr d1, st1) \<Rightarrow>
    (case fetch_source e 2 d1 st1 of
       (Inl err, st2) \<Rightarrow> (Inl err, st2)
     | (Inr d2, st2) \<Rightarrow>
    (case fetch_source e 3 d2 st2 of
       (Inl err, st3) \<Rightarrow> (Inl err, st3)
     | (Inr d3, st3) \<Rightarrow> fetch_source e 4 d3 st3)))"

definition process_reports :: "env \<Rightarrow> state \<Rightarrow> (error + unit) \<times> state" where
  "process_reports e st =
    (case collect_reports e st of
       (Inl err, st1) \<Rightarrow> (Inl err, st1)
     | (Inr all_data, st1) \<Rightarrow>
         if \<not> df_empty all_data
         then (case push_to_bigquery e all_data st1 of (res, df', st2) \<Rightarrow> (res, st2))
         else (Inr (), st1))"

text \<open>The script: construct the processor, then process the reports.\<close>

definition main :: "env \<Rightarrow> state \<Rightarrow> (error + unit) \<times> state" where
  "main e st =
    (case AdSenseReportProcessor_init e of
       Inl err \<Rightarrow> (Inl err, st)
     | Inr processor \<Rightarrow> process_reports e st)"

section \<open>Notions used in the statements\<close>

text \<open>The calls a step added to the trace.\<close>

definition new_events :: "state \<Rightarrow> state \<Rightarrow> event list" where
  "new_events st st' = drop (length (trace st)) (trace st')"

text \<open>
  Yesterday's date as \<^verbatim>\<open>delete_yesterday_data\<close> computes it when called in state \<open>st\<close>:
  the day before the next clock reading, formatted.
\<close>

definition previous_date :: "env \<Rightarrow> state \<Rightarrow> string" where
  "previous_date e st = strftime (clock e (ticks st) - 1)"

text \<open>
  A table whose seven count columns are all there and hold finite numbers or missing
  values.
\<close>

fun is_number :: "cell \<Rightarrow> bool" where
  "is_number (Num q) = True"
| "is_number (IntV n) = True"
| "is_number NaN = True"
| "is_number c = False"

definition counts_numeric :: "dataframe \<Rightarrow> bool" where
  "counts_numeric df =
    (set int_cols \<subseteq> set (columns df) \<and>
     list_all (\<lambda>r. list_all (\<lambda>(c, v). c \<in> set int_cols \<longrightarrow> is_number v) (zip (columns df) r)) (rows df))"

text \<open>The account ids \<^verbatim>\<open>list_accounts\<close> returns for credential set \<open>n\<close>.\<close>

definition listed :: "env \<Rightarrow> nat \<Rightarrow> string list" where
  "listed e n = (case list_accounts_try (source e n) of Inl err \<Rightarrow> [] | Inr ids \<Rightarrow> ids)"

text \<open>
  The window \<^verbatim>\<open>fetch_report\<close> requests when it starts at clock reading \<open>t\<close>: from the day
  before the first reading to the day of the second.
\<close>

definition window_start :: "env \<Rightarrow> nat \<Rightarrow> ymd" where
  "window_start e t = civil_from_days (clock e t - 1)"

definition window_end :: "env \<Rightarrow> nat \<Rightarrow> ymd" where
  "window_end e t = civil_from_days (clock e (Suc t))"

text \<open>The frame \<^verbatim>\<open>fetch_report\<close> returns for an account when it starts at clock reading \<open>t\<close>.\<close>

definition report_frame :: "env \<Rightarrow> nat \<Rightarrow> string \<Rightarrow> nat \<Rightarrow> dataframe" where
  "report_frame e n account_id t =
    (case fetch_report_try e n account_id (window_start e t) (window_end e t) of
       Inl err \<Rightarrow> DataFrame_empty
     | Inr df \<Rightarrow> df)"

text \<open>
  The frames and the API calls of the inner loop over the accounts of one credential set,
  in the order of the accounts; each fetch takes two clock readings.
\<close>

fun frames_from :: "env \<Rightarrow> nat \<Rightarrow> string list \<Rightarrow> nat \<Rightarrow> dataframe list" where
  "frames_from e n [] t = []"
| "frames_from e n (account_id # rest) t = report_frame e n account_id t # frames_from e n rest (t + 2)"

fun calls_from :: "env \<Rightarrow> nat \<Rightarrow> string list \<Rightarrow> nat \<Rightarrow> event list" where
  "calls_from e n [] t = []"
| "calls_from e n (account_id # rest) t =
     ReportsGenerate n account_id (window_start e t) (window_end e t) # calls_from e n rest (t + 2)"

text \<open>The same for the credential sets in turn, each listing its accounts first.\<close>

fun frames_of_sources :: "env \<Rightarrow> nat list \<Rightarrow> nat \<Rightarrow> dataframe list" where
  "frames_of_sources e [] t = []"
| "frames_of_sources e (n # ns) t =
     frames_from e n (listed e n) t @ frames_of_sources e ns (t + 2 * length (listed e n))"

fun calls_of_sources :: "env \<Rightarrow> nat list \<Rightarrow> nat \<Rightarrow> event list" where
  "calls_of_sources e [] t = []"
| "calls_of_sources e (n # ns) t =
     AccountsList n # calls_from e n (listed e n) t
     @ calls_of_sources e ns (t + 2 * length (listed e n))"

fun readings :: "env \<Rightarrow> nat list \<Rightarrow> nat" where
  "readings e [] = 0"
| "readings e (n # ns) = 2 * length (listed e n) + readings e ns"

text \<open>The calls that reach the warehouse.\<close>

fun is_warehouse_call :: "event \<Rightarrow> bool" where
  "is_warehouse_call (DeleteQuery c) = True"
| "is_warehouse_call DeleteCompleted = True"
| "is_warehouse_call (AppendRows df) = True"
| "is_warehouse_call ev = False"

text \<open>The frames of the four credential sets merged in that order.\<close>

definition consolidated :: "env \<Rightarrow> nat \<Rightarrow> dataframe" where
  "consolidated e t = foldl pd_concat DataFrame_empty (frames_of_sources e [1, 2, 3, 4] t)"


section \<open>Example inputs\<close>

text \<open>
  A run on 2024-01-15 (day 19737), a table of two report rows as \<^verbatim>\<open>fetch_report\<close> builds
  them, and a warehouse that already holds a row of the 13th and one of the 14th.
\<close>

definition example_source :: source_env where
  "example_source =
    \<lparr>credentials_file_exists = True,
     from_authorized_user_file = Some \<lparr>expired = False, refresh_token = True, valid = True\<rparr>,
     refresh = None, run_local_server = None, write_credentials_ok = True, build_ok = True,
     accounts_list = Some (AccountsJ None),
     reports_generate = (\<lambda>account_id start_date end_date. None)\<rparr>"

definition example_env :: env where
  "example_env =
    \<lparr>clock = (\<lambda>n. 19737),
     float_of_str = map_of
       [(''3.0'', Num 3), (''0.12'', Num (12 / 100)), (''0.5'', Num (1 / 2)), (''1.25'', Num (5 / 4)),
        (''2.5'', Num (5 / 2)), (''8'', Num 8), (''9'', Num 9), (''10'', Num 10), (''12'', Num 12),
        (''18'', Num 18), (''20'', Num 20), (''25'', Num 25), (''30'', Num 30), (''40'', Num 40)],
     int_of_str = (\<lambda>s. None),
     cast_out_of_range = (\<lambda>q. - (2 ^ 63)),
     source = (\<lambda>n. example_source),
     service_account_ok = True,
     query_ok = (\<lambda>c. True), job_ok = (\<lambda>c. True), append_ok = (\<lambda>df. True)\<rparr>"

definition example_columns :: "string list" where
  "example_columns =
    [''account_id'', ''date'', ''domain'', ''country'', ''ESTIMATED_EARNINGS'', ''PAGE_VIEWS'',
     ''PAGE_VIEWS_RPM'', ''CLICKS'', ''AD_REQUESTS_CTR'', ''COST_PER_CLICK'', ''TOTAL_IMPRESSIONS'',
     ''AD_REQUESTS'', ''MATCHED_AD_REQUESTS'', ''IMPRESSIONS'', ''INDIVIDUAL_AD_IMPRESSIONS'']"

definition example_df :: dataframe where
  "example_df =
    \<lparr>columns = example_columns,
     rows = [[Str ''accounts/pub-1'', Str ''2024-01-14'', Str ''example.org'', Str ''DE'',
              Num (5 / 4), NaN, Num (5 / 2), Num 3, Num (12 / 100), Num (1 / 2),
              Num 40, Num 25, Num 20, Num 18, Num 18],
             [Str ''accounts/pub-1'', Str ''2024-01-15'', Str ''example.org'', Str ''FR'',
              Num 0, Num 9, Num 0, Num (5 / 2), Num 0, Num 0,
              Num 12, Num 10, Num 8, Num 8, Num 8]]\<rparr>"

definition example_coerced :: dataframe where
  "example_coerced =
    \<lparr>columns = example_columns,
     rows = [[Str ''accounts/pub-1'', Str ''2024-01-14'', Str ''example.org'', Str ''DE'',
              Num (5 / 4), IntV 0, Num (5 / 2), IntV 3, Num (12 / 100), Num (1 / 2),
              IntV 40, IntV 25, IntV 20, IntV 18, IntV 18],
             [Str ''accounts/pub-1'', Str ''2024-01-15'', Str ''example.org'', Str ''FR'',
              Num 0, IntV 9, Num 0, IntV 2, Num 0, Num 0,
              IntV 12, IntV 10, IntV 8, IntV 8, IntV 8]]\<rparr>"

definition example_loaded :: dataframe where
  "example_loaded = example_coerced\<lparr>columns := 
    [''account_id'', ''date'', ''domain'', ''country'', ''ESTIMATED_EARNINGS'', ''PAGE_VIEWS'',
     ''PAGE_VIEWS_RPM'', ''CLICKS'', ''ctr'', ''cpc'', ''TOTAL_IMPRESSIONS'',
     ''AD_REQUESTS'', ''MATCHED_AD_REQUESTS'', ''IMPRESSIONS'', ''INDIVIDUAL_AD_IMPRESSIONS'']\<rparr>"

definition example_state :: state where
  "example_state =
    \<lparr>table = [[(''date'', Str ''2024-01-13''), (''CLICKS'', IntV 1)],
              [(''date'', Str ''2024-01-14''), (''CLICKS'', IntV 2)]],
     trace = [], ticks = 0\<rparr>"

definition example_final :: state where
  "example_final =
    \<lparr>table = [(''date'', Str ''2024-01-13''), (''CLICKS'', IntV 1)] # to_records example_loaded,
     trace = [DeleteQuery ''2024-01-14'', DeleteCompleted, AppendRows example_loaded],
     ticks = 1\<rparr>"

definition example_rerun :: state where
  "example_rerun =
    \<lparr>table = [(''date'', Str ''2024-01-13''), (''CLICKS'', IntV 1)] # to_records example_loaded,
     trace = [DeleteQuery ''2024-01-14'', DeleteCompleted, AppendRows example_loaded,
              DeleteQuery ''2024-01-14'', DeleteCompleted, AppendRows example_loaded],
     ticks = 2\<rparr>"

text \<open>
  Four credential sets for the same day: the first lists one account with one report row;
  the listing of the second fails; the third lists three accounts, of which the first
  report request fails, the second gives one row and the third gives a report without
  rows; the fourth lists no account. In \<open>auth_failure_env\<close> the stored credentials of
  the second set are expired and cannot be refreshed.
\<close>

definition example_headers :: "header_json list" where
  "example_headers = map (\<lambda>s. HeaderJ (Some s))
    [''DATE'', ''DOMAIN_NAME'', ''COUNTRY_CODE'', ''ESTIMATED_EARNINGS'', ''PAGE_VIEWS'',
     ''PAGE_VIEWS_RPM'', ''CLICKS'', ''AD_REQUESTS_CTR'', ''COST_PER_CLICK'', ''TOTAL_IMPRESSIONS'',
     ''AD_REQUESTS'', ''MATCHED_AD_REQUESTS'', ''IMPRESSIONS'', ''INDIVIDUAL_AD_IMPRESSIONS'']"

definition example_report :: "string list \<Rightarrow> report_json" where
  "example_report vs =
    \<lparr>report_headers = Some example_headers,
     report_rows = Some [RowJ (Some (map (\<lambda>s. CellJ (Some s)) vs))]\<rparr>"

definition partial_source :: "nat \<Rightarrow> source_env" where
  "partial_source n = example_source
    \<lparr>accounts_list :=
       (if n = 1 then Some (AccountsJ (Some
          [\<lparr>acc_name = Some ''accounts/pub-1'', acc_displayName = Some ''One''\<rparr>]))
        else if n = 2 then None
        else if n = 3 then Some (AccountsJ (Some
          [\<lparr>acc_name = Some ''accounts/pub-3a'', acc_displayName = Some ''Three A''\<rparr>,
           \<lparr>acc_name = Some ''accounts/pub-3b'', acc_displayName = Some ''Three B''\<rparr>,
           \<lparr>acc_name = Some ''accounts/pub-3c'', acc_displayName = Some ''Three C''\<rparr>]))
        else Some (AccountsJ None)),
     reports_generate := (\<lambda>account_id start_date end_date.
        if account_id = ''accounts/pub-1''
        then Some (example_report [''2024-01-14'', ''example.org'', ''DE'', ''1.25'', ''30'', ''2.5'',
                     ''3.0'', ''0.12'', ''0.5'', ''40'', ''25'', ''20'', ''18'', ''18''])
        else if account_id = ''accounts/pub-3b''
        then Some (example_report [''2024-01-15'', ''example.net'', ''FR'', ''0.5'', ''9'', ''2.5'',
                     ''3.0'', ''0.12'', ''0.5'', ''12'', ''10'', ''8'', ''8'', ''8''])
        else if account_id = ''accounts/pub-3c''
        then Some \<lparr>report_headers = Some example_headers, report_rows = None\<rparr>
        else None)\<rparr>"

definition partial_env :: env where
  "partial_env = example_env\<lparr>source := partial_source\<rparr>"

definition partial_table :: dataframe where
  "partial_table =
    \<lparr>columns = example_columns,
     rows = [[Str ''accounts/pub-1'', Str ''2024-01-14'', Str ''example.org'', Str ''DE'',
              Num (5 / 4), Num 30, Num (5 / 2), Num 3, Num (12 / 100), Num (1 / 2),
              Num 40, Num 25, Num 20, Num 18, Num 18],
             [Str ''accounts/pub-3b'', Str ''2024-01-15'', Str ''example.net'', Str ''FR'',
              Num (1 / 2), Num 9, Num (5 / 2), Num 3, Num (12 / 100), Num (1 / 2),
              Num 12, Num 10, Num 8, Num 8, Num 8]]\<rparr>"

definition auth_failure_env :: env where
  "auth_failure_env = partial_env
    \<lparr>source := (\<lambda>n. if n = 2
        then (partial_source 2)\<lparr>from_authorized_user_file :=
                Some \<lparr>expired = True, refresh_token = True, valid = False\<rparr>\<rparr>
        else partial_source n)\<rparr>"

section \<open>Facts about the load\<close>

lemma those_eq_Some: "those xs = Some ys \<longleftrightarrow> xs = map Some ys"
  by (induction xs arbitrary: ys) (auto split: option.splits)

lemma coerce_row_length:
  assumes "coerce_row e cols r = Some r'" and "length r = length cols"
  shows "length r' = length cols"
proof -
  from assms(1) have "map2 (\<lambda>c v. if c \<in> set int_cols then astype_int e (fillna0 v) else Some v) cols r = map Some r'"
    unfolding coerce_row_def those_eq_Some .
  then have "length (map2 (\<lambda>c v. if c \<in> set int_cols then astype_int e (fillna0 v) else Some v) cols r) = length (map Some r')"
    by (rule arg_cong)
  then have "length (zip cols r) = length r'"
    by (simp only: length_map)
  with assms(2) show ?thesis by simp
qed

lemma coerce_row_nth:
  assumes "coerce_row e cols r = Some r'" and "length r = length cols" and "j < length cols"
  shows "(if cols ! j \<in> set int_cols then astype_int e (fillna0 (r ! j)) else Some (r ! j)) = Some (r' ! j)"
proof -
  let ?f = "\<lambda>c v. if c \<in> set int_cols then astype_int e (fillna0 v) else Some v"
  from assms(1) have eq: "map2 ?f cols r = map Some r'"
    unfolding coerce_row_def those_eq_Some .
  have len: "length r' = length cols"
    using assms(1,2) by (rule coerce_row_length)
  have "map2 ?f cols r ! j = ?f (cols ! j) (r ! j)"
    using assms(2,3) by simp
  moreover have "map Some r' ! j = Some (r' ! j)"
    using len assms(3) by simp
  ultimately show ?thesis using eq by simp
qed

lemma coerce_int_cols_Inr:
  assumes "coerce_int_cols e df = Inr df1"
  shows "set int_cols \<subseteq> set (columns df)"
    and "columns df1 = columns df"
    and "map (coerce_row e (columns df)) (rows df) = map Some (rows df1)"
  using assms
  by (auto simp: coerce_int_cols_def those_eq_Some split: if_splits option.splits)

lemma coerce_int_cols_rows:
  assumes "coerce_int_cols e df = Inr df1"
  shows "length (rows df1) = length (rows df)"
    and "i < length (rows df) \<Longrightarrow> coerce_row e (columns df) (rows df ! i) = Some (rows df1 ! i)"
proof -
  have eq: "map (coerce_row e (columns df)) (rows df) = map Some (rows df1)"
    using assms by (rule coerce_int_cols_Inr)
  then show len: "length (rows df1) = length (rows df)"
    by (metis length_map)
  assume i: "i < length (rows df)"
  then have "map (coerce_row e (columns df)) (rows df) ! i = coerce_row e (columns df) (rows df ! i)"
    by simp
  moreover have "map Some (rows df1) ! i = Some (rows df1 ! i)"
    using i len by simp
  ultimately show "coerce_row e (columns df) (rows df ! i) = Some (rows df1 ! i)"
    using eq by simp
qed

lemma trunc_0: "trunc 0 = 0"
  by (simp add: trunc_def)

lemma in_int64_0: "in_int64 0"
  by (simp add: in_int64_def)

lemma astype_fillna_IntV: "astype_int e (fillna0 v) = Some w \<Longrightarrow> \<exists>n. w = IntV n"
  by (cases v) auto

lemma delete_yesterday_data_eq:
  "delete_yesterday_data e st =
     (if query_ok e (previous_date e st) \<and> job_ok e (previous_date e st)
      then (Inr (), st\<lparr>table := filter (\<lambda>r. \<not> date_ge (previous_date e st) r) (table st),
                        trace := trace st @ [DeleteQuery (previous_date e st), DeleteCompleted],
                        ticks := Suc (ticks st)\<rparr>)
      else (Inl QueryError, st\<lparr>trace := trace st @ [DeleteQuery (previous_date e st)],
                                ticks := Suc (ticks st)\<rparr>))"
  by (simp add: delete_yesterday_data_def now_def emit_def previous_date_def Let_def)

lemma push_to_bigquery_coerced:
  assumes "\<not> df_empty df" and "coerce_int_cols e df = Inr df1"
  shows "push_to_bigquery e df st =
     (if query_ok e (previous_date e st) \<and> job_ok e (previous_date e st)
      then (if append_ok e (rename df1) then Inr () else Inl AppendError, df1,
            st\<lparr>table := filter (\<lambda>r. \<not> date_ge (previous_date e st) r) (table st)
                          @ (if append_ok e (rename df1) then to_records (rename df1) else []),
                trace := trace st @ [DeleteQuery (previous_date e st), DeleteCompleted, AppendRows (rename df1)],
                ticks := Suc (ticks st)\<rparr>)
      else (Inl QueryError, df1,
            st\<lparr>trace := trace st @ [DeleteQuery (previous_date e st)], ticks := Suc (ticks st)\<rparr>))"
  using assms
  by (simp add: push_to_bigquery_def delete_yesterday_data_eq to_gbq_def emit_def Let_def)

lemma push_to_bigquery_uncoerced:
  assumes "\<not> df_empty df" and "coerce_int_cols e df = Inl err"
  shows "push_to_bigquery e df st = (Inl err, df, st)"
  using assms by (simp add: push_to_bigquery_def)

lemma push_to_bigquery_new_events:
  assumes "\<not> df_empty df" and "push_to_bigquery e df st = (res, df', st')"
  shows "new_events st st' = [] \<and> res \<noteq> Inr () \<and> df' = df
       \<or> coerce_int_cols e df = Inr df' \<and> res \<noteq> Inr () \<and> new_events st st' = [DeleteQuery (previous_date e st)]
       \<or> coerce_int_cols e df = Inr df' \<and>
          new_events st st' = [DeleteQuery (previous_date e st), DeleteCompleted, AppendRows (rename df')]"
proof (cases "coerce_int_cols e df")
  case (Inl err)
  with assms show ?thesis
    by (auto simp: push_to_bigquery_uncoerced new_events_def)
next
  case (Inr df1)
  show ?thesis
  proof (cases "query_ok e (previous_date e st) \<and> job_ok e (previous_date e st)")
    case True
    with assms Inr show ?thesis
      by (auto simp: push_to_bigquery_coerced new_events_def)
  next
    case False
    with assms Inr show ?thesis
      by (auto simp: push_to_bigquery_coerced new_events_def)
  qed
qed

lemma wf_df_row:
  assumes "wf_df df" and "i < length (rows df)"
  shows "length (rows df ! i) = length (columns df)"
  using assms by (simp add: wf_df_def list_all_length)

lemma coerced_cell:
  assumes "wf_df df" and "coerce_int_cols e df = Inr df1"
    and "i < length (rows df)" and "j < length (columns df)"
  shows "(if columns df ! j \<in> set int_cols then astype_int e (fillna0 (rows df ! i ! j))
          else Some (rows df ! i ! j)) = Some (rows df1 ! i ! j)"
proof -
  have "coerce_row e (columns df) (rows df ! i) = Some (rows df1 ! i)"
    using assms(2,3) by (rule coerce_int_cols_rows)
  moreover have "length (rows df ! i) = length (columns df)"
    using assms(1,3) by (rule wf_df_row)
  ultimately show ?thesis
    using assms(4) by (rule coerce_row_nth)
qed

lemma coerced_wf:
  assumes "wf_df df" and "coerce_int_cols e df = Inr df1"
  shows "wf_df df1"
proof -
  have cols: "columns df1 = columns df"
    using assms(2) by (rule coerce_int_cols_Inr)
  have len: "length (rows df1) = length (rows df)"
    using assms(2) by (rule coerce_int_cols_rows)
  have "length (rows df1 ! i) = length (columns df)" if "i < length (rows df)" for i
  proof -
    have "coerce_row e (columns df) (rows df ! i) = Some (rows df1 ! i)"
      using assms(2) that by (rule coerce_int_cols_rows)
    moreover have "length (rows df ! i) = length (columns df)"
      using assms(1) that by (rule wf_df_row)
    ultimately show ?thesis by (rule coerce_row_length)
  qed
  with assms(1) cols len show ?thesis
    by (simp add: wf_df_def list_all_length)
qed

lemma coerced_not_empty:
  assumes "\<not> df_empty df" and "coerce_int_cols e df = Inr df1"
  shows "\<not> df_empty df1"
proof -
  have "columns df1 = columns df"
    using assms(2) by (rule coerce_int_cols_Inr)
  moreover have "length (rows df1) = length (rows df)"
    using assms(2) by (rule coerce_int_cols_rows)
  ultimately show ?thesis
    using assms(1) by (auto simp: df_empty_def)
qed

lemma coerce_row_fixed:
  assumes "length r = length cols"
    and "\<And>j. j < length cols \<Longrightarrow> cols ! j \<in> set int_cols \<Longrightarrow> \<exists>n. r ! j = IntV n"
  shows "coerce_row e cols r = Some r"
proof -
  let ?f = "\<lambda>c v. if c \<in> set int_cols then astype_int e (fillna0 v) else Some v"
  have "map2 ?f cols r = map Some r"
  proof (rule nth_equalityI)
    show "length (map2 ?f cols r) = length (map Some r)"
      using assms(1) by simp
  next
    fix j assume "j < length (map2 ?f cols r)"
    then have j: "j < length cols" by simp
    show "map2 ?f cols r ! j = map Some r ! j"
    proof (cases "cols ! j \<in> set int_cols")
      case True
      then obtain n where "r ! j = IntV n" using assms(2) j by blast
      with True j assms(1) show ?thesis by simp
    next
      case False
      with j assms(1) show ?thesis by simp
    qed
  qed
  then show ?thesis
    unfolding coerce_row_def those_eq_Some .
qed

lemma coerce_int_cols_idem:
  assumes "wf_df df" and "coerce_int_cols e df = Inr df1"
  shows "coerce_int_cols e df1 = Inr df1"
proof -
  have cols: "columns df1 = columns df"
    using assms(2) by (rule coerce_int_cols_Inr)
  have sub: "set int_cols \<subseteq> set (columns df)"
    using assms(2) by (rule coerce_int_cols_Inr)
  have len: "length (rows df1) = length (rows df)"
    using assms(2) by (rule coerce_int_cols_rows)
  have wf1: "wf_df df1"
    using assms by (rule coerced_wf)
  have "map (coerce_row e (columns df)) (rows df1) = map Some (rows df1)"
  proof (rule nth_equalityI)
    show "length (map (coerce_row e (columns df)) (rows df1)) = length (map Some (rows df1))"
      by simp
  next
    fix i assume "i < length (map (coerce_row e (columns df)) (rows df1))"
    then have i1: "i < length (rows df1)" by simp
    then have i: "i < length (rows df)" using len by simp
    have l1: "length (rows df1 ! i) = length (columns df)"
      using wf_df_row [OF wf1 i1] cols by simp
    have "coerce_row e (columns df) (rows df1 ! i) = Some (rows df1 ! i)"
    proof (rule coerce_row_fixed [OF l1])
      fix j assume j: "j < length (columns df)" and c: "columns df ! j \<in> set int_cols"
      from coerced_cell [OF assms i j] c
      have "astype_int e (fillna0 (rows df ! i ! j)) = Some (rows df1 ! i ! j)" by simp
      then show "\<exists>n. rows df1 ! i ! j = IntV n" by (rule astype_fillna_IntV)
    qed
    with i1 show "map (coerce_row e (columns df)) (rows df1) ! i = map Some (rows df1) ! i"
      by simp
  qed
  then have "those (map (coerce_row e (columns df)) (rows df1)) = Some (rows df1)"
    unfolding those_eq_Some .
  with sub cols show ?thesis
    by (simp add: coerce_int_cols_def)
qed

lemma those_all_Some: "(\<forall>x\<in>set xs. x \<noteq> None) \<Longrightarrow> those xs = Some (map the xs)"
  by (induction xs) auto

lemma is_number_astype: "is_number v \<Longrightarrow> \<exists>y. astype_int e (fillna0 v) = Some y"
  by (cases v) simp_all

lemma counts_numeric_coerce_row:
  assumes "\<forall>(c, v)\<in>set (zip cols r). c \<in> set int_cols \<longrightarrow> is_number v"
  shows "\<exists>y. coerce_row e cols r = Some y"
proof -
  let ?f = "\<lambda>c v. if c \<in> set int_cols then astype_int e (fillna0 v) else Some v"
  have "\<forall>x\<in>set (map2 ?f cols r). x \<noteq> None"
    using assms by (fastforce dest: is_number_astype)
  then have "those (map2 ?f cols r) = Some (map the (map2 ?f cols r))"
    by (rule those_all_Some)
  then show ?thesis
    by (simp add: coerce_row_def)
qed

lemma counts_numeric_coerces:
  assumes "counts_numeric df"
  shows "\<exists>df1. coerce_int_cols e df = Inr df1"
proof -
  have sub: "set int_cols \<subseteq> set (columns df)"
    using assms by (simp add: counts_numeric_def)
  have "\<forall>x\<in>set (map (coerce_row e (columns df)) (rows df)). x \<noteq> None"
  proof
    fix x assume "x \<in> set (map (coerce_row e (columns df)) (rows df))"
    then obtain r where r: "r \<in> set (rows df)" and x: "x = coerce_row e (columns df) r"
      by auto
    from assms r have "\<forall>(c, v)\<in>set (zip (columns df) r). c \<in> set int_cols \<longrightarrow> is_number v"
      by (simp add: counts_numeric_def list_all_iff)
    then have "\<exists>y. coerce_row e (columns df) r = Some y"
      by (rule counts_numeric_coerce_row)
    with x show "x \<noteq> None" by auto
  qed
  then have "those (map (coerce_row e (columns df)) (rows df))
             = Some (map the (map (coerce_row e (columns df)) (rows df)))"
    by (rule those_all_Some)
  with sub show ?thesis
    by (simp add: coerce_int_cols_def)
qed

lemma appended_frame:
  assumes "\<not> df_empty df" and "push_to_bigquery e df st = (res, df', st')"
    and "AppendRows a \<in> set (new_events st st')"
  shows "coerce_int_cols e df = Inr df' \<and> a = rename df'"
  using push_to_bigquery_new_events [OF assms(1,2)] assms(3) by auto

lemma rename_col_count: "c \<in> set int_cols \<Longrightarrow> rename_col c = c"
  by (auto simp: rename_col_def int_cols_def)

lemma push_to_bigquery_returns:
  assumes "\<not> df_empty df" and "push_to_bigquery e df st = (Inr (), df', st')"
  shows "coerce_int_cols e df = Inr df'"
    and "table st' = filter (\<lambda>r. \<not> date_ge (previous_date e st) r) (table st) @ to_records (rename df')"
    and "new_events st st' = [DeleteQuery (previous_date e st), DeleteCompleted, AppendRows (rename df')]"
proof -
  show co: "coerce_int_cols e df = Inr df'"
    using push_to_bigquery_new_events [OF assms] by auto
  have ok: "query_ok e (previous_date e st) \<and> job_ok e (previous_date e st) \<and> append_ok e (rename df')"
    using assms(2) unfolding push_to_bigquery_coerced [OF assms(1) co]
    by (auto split: if_splits)
  show "table st' = filter (\<lambda>r. \<not> date_ge (previous_date e st) r) (table st) @ to_records (rename df')"
    using assms(2) ok unfolding push_to_bigquery_coerced [OF assms(1) co] by auto
  show "new_events st st' = [DeleteQuery (previous_date e st), DeleteCompleted, AppendRows (rename df')]"
    using assms(2) ok unfolding push_to_bigquery_coerced [OF assms(1) co]
    by (auto simp: new_events_def)
qed

lemma load_reaches_append:
  assumes "\<not> df_empty df" and "counts_numeric df"
    and "query_ok e (previous_date e st)" and "job_ok e (previous_date e st)"
  shows "\<exists>df1. coerce_int_cols e df = Inr df1
          \<and> new_events st (snd (snd (push_to_bigquery e df st)))
              = [DeleteQuery (previous_date e st), DeleteCompleted, AppendRows (rename df1)]"
proof -
  from assms(2) obtain df1 where co: "coerce_int_cols e df = Inr df1"
    using counts_numeric_coerces by blast
  have "new_events st (snd (snd (push_to_bigquery e df st)))
          = [DeleteQuery (previous_date e st), DeleteCompleted, AppendRows (rename df1)]"
    using assms(3,4) by (simp add: push_to_bigquery_coerced [OF assms(1) co] new_events_def)
  with co show ?thesis by blast
qed

lemma example_wf: "wf_df example_df"
  by code_simp

lemma example_not_empty: "\<not> df_empty example_df"
  by code_simp

lemma example_push:
  "push_to_bigquery example_env example_df example_state = (Inr (), example_coerced, example_final)"
  by code_simp

lemma example_appended: "AppendRows example_loaded \<in> set (new_events example_state example_final)"
  by code_simp



lemma example_push_again:
  "push_to_bigquery example_env example_coerced example_final = (Inr (), example_coerced, example_rerun)"
  by code_simp

lemma example_previous_date_again: "previous_date example_env example_final = ''2024-01-14''"
  by code_simp

section \<open>Facts about fetching and merging\<close>

lemma list_accounts_eq: "list_accounts e n st = (Inr (listed e n), emit (AccountsList n) st)"
  by (simp add: list_accounts_def listed_def split: sum.splits)

lemma fetch_report_eq:
  "fetch_report e n a st =
     (Inr (report_frame e n a (ticks st)),
      st\<lparr>trace := trace st @ [ReportsGenerate n a (window_start e (ticks st)) (window_end e (ticks st))],
         ticks := ticks st + 2\<rparr>)"
  by (simp add: fetch_report_def report_frame_def window_start_def window_end_def now_def emit_def
      split: sum.splits)

lemma fetch_accounts_eq:
  "fetch_accounts e n ids all_data st =
     (Inr (foldl pd_concat all_data (frames_from e n ids (ticks st))),
      st\<lparr>trace := trace st @ calls_from e n ids (ticks st), ticks := ticks st + 2 * length ids\<rparr>)"
proof (induction ids arbitrary: all_data st)
  case Nil
  show ?case by simp
next
  case (Cons a ids)
  show ?case
    by (simp add: fetch_report_eq Cons.IH)
qed

lemma fetch_source_eq:
  "fetch_source e n all_data st =
     (Inr (foldl pd_concat all_data (frames_from e n (listed e n) (ticks st))),
      st\<lparr>trace := trace st @ AccountsList n # calls_from e n (listed e n) (ticks st),
         ticks := ticks st + 2 * length (listed e n)\<rparr>)"
  by (simp add: fetch_source_def list_accounts_eq fetch_accounts_eq emit_def)

lemma collect_reports_eq:
  "collect_reports e st =
     (Inr (consolidated e (ticks st)),
      st\<lparr>trace := trace st @ calls_of_sources e [1, 2, 3, 4] (ticks st),
         ticks := ticks st + readings e [1, 2, 3, 4]\<rparr>)"
  by (simp add: collect_reports_def fetch_source_eq consolidated_def add.assoc)







lemma length_row_values: "length (row_values df) = length (rows df)"
  by (simp add: row_values_def)




lemma distinct_add_labels: "distinct cols \<Longrightarrow> distinct (add_labels cols ks)"
  unfolding add_labels_def by (induction ks arbitrary: cols) auto

lemma wf_pd_concat:
  assumes "distinct (columns a)"
  shows "wf_df (pd_concat a b)"
  using distinct_add_labels [OF assms, of "columns b"]
  by (auto simp: wf_df_def pd_concat_def Let_def list_all_iff)

lemma wf_foldl_pd_concat: "wf_df a \<Longrightarrow> wf_df (foldl pd_concat a fs)"
proof (induction fs arbitrary: a)
  case Nil
  then show ?case by simp
next
  case (Cons f fs)
  from Cons.prems have "distinct (columns a)" by (simp add: wf_df_def)
  then have "wf_df (pd_concat a f)" by (rule wf_pd_concat)
  then show ?case using Cons.IH by simp
qed

lemma consolidated_wf: "wf_df (consolidated e t)"
  unfolding consolidated_def
  by (rule wf_foldl_pd_concat) (simp add: wf_df_def DataFrame_empty_def)

lemma calls_from_no_warehouse: "filter is_warehouse_call (calls_from e n ids t) = []"
  by (induction ids arbitrary: t) simp_all

lemma process_reports_eq:
  "process_reports e st =
     (if df_empty (consolidated e (ticks st)) then (Inr (), snd (collect_reports e st))
      else (case push_to_bigquery e (consolidated e (ticks st)) (snd (collect_reports e st)) of
              (res, df', st2) \<Rightarrow> (res, st2)))"
  by (simp add: process_reports_def collect_reports_eq)

lemma ebind_Inl: "ebind (Inl err) f = Inl err"
  by (simp add: ebind_def)

lemma ebind_Inr: "ebind (Inr x) f = f x"
  by (simp add: ebind_def)

lemma partial_window:
  "window_start partial_env (ticks example_state) = (2024, 1, 14)
   \<and> window_end partial_env (ticks example_state) = (2024, 1, 15)"
  by code_simp

lemma partial_request_fails:
  "reports_generate (source partial_env 3) ''accounts/pub-3a'' (2024, 1, 14) (2024, 1, 15) = None"
  by code_simp

lemma partial_no_rows_key:
  "reports_generate (source partial_env 3) ''accounts/pub-3c'' (2024, 1, 14) (2024, 1, 15)
     = Some \<lparr>report_headers = Some example_headers, report_rows = None\<rparr>"
  by code_simp







lemma example_no_accounts:
  "listed example_env 1 = [] \<and> listed example_env 2 = [] \<and> listed example_env 3 = []
   \<and> listed example_env 4 = []"
  by code_simp

lemma example_init: "AdSenseReportProcessor_init example_env = Inr ()"
  by code_simp

lemma auth_failure_source_2: "authenticate (source auth_failure_env 2) = Inl RefreshError"
  by code_simp

section \<open>The load: claims C1 to C4 and C10\<close>

text \<open>
  Claim C1 (idempotence of the load). Let the load run on a non-empty table \<open>T\<close> and
  return, and let it run again right after, on the same table (\<open>T\<close> by value, or the
  caller's object \<open>T1\<close> as the first run left it) and return. Then the rows of the
  warehouse table dated yesterday or later (the window of the second delete) are
  exactly the loaded rows of \<open>T\<close> of that window, once each: the second delete removed
  what the first run appended there. The second conjunct gives the whole table.
\<close>

theorem load_twice_one_copy:
  assumes "wf_df T" and "\<not> df_empty T"
    and "push_to_bigquery e T st0 = (Inr (), T1, st1)"
    and "T2 = T \<or> T2 = T1"
    and "push_to_bigquery e T2 st1 = (Inr (), T3, st2)"
  shows "filter (date_ge (previous_date e st1)) (table st2)
           = filter (date_ge (previous_date e st1)) (to_records (rename T1))
       \<and> table st2 = filter (\<lambda>r. \<not> date_ge (previous_date e st1) r)
                          (filter (\<lambda>r. \<not> date_ge (previous_date e st0) r) (table st0)
                           @ to_records (rename T1))
                      @ to_records (rename T1)"
proof -
  have co1: "coerce_int_cols e T = Inr T1"
    using assms(2,3) by (rule push_to_bigquery_returns)
  have t1: "table st1 = filter (\<lambda>r. \<not> date_ge (previous_date e st0) r) (table st0) @ to_records (rename T1)"
    using assms(2,3) by (rule push_to_bigquery_returns)
  have ne2: "\<not> df_empty T2"
    using assms(2,4) coerced_not_empty [OF assms(2) co1] by auto
  have "coerce_int_cols e T2 = Inr T1"
    using assms(4) co1 coerce_int_cols_idem [OF assms(1) co1] by auto
  moreover have "coerce_int_cols e T2 = Inr T3"
    using ne2 assms(5) by (rule push_to_bigquery_returns)
  ultimately have T3: "T3 = T1" by simp
  have t2: "table st2 = filter (\<lambda>r. \<not> date_ge (previous_date e st1) r) (table st1) @ to_records (rename T3)"
    using ne2 assms(5) by (rule push_to_bigquery_returns)
  show ?thesis
    unfolding t2 T3 t1 by simp
qed

theorem load_twice_one_copy_witness:
  "wf_df example_df \<and> \<not> df_empty example_df
   \<and> push_to_bigquery example_env example_df example_state = (Inr (), example_coerced, example_final)
   \<and> push_to_bigquery example_env example_coerced example_final = (Inr (), example_coerced, example_rerun)
   \<and> filter (date_ge ''2024-01-14'') (table example_rerun)
       = filter (date_ge ''2024-01-14'') (to_records (rename example_coerced))
   \<and> filter (date_ge ''2024-01-14'') (to_records (rename example_coerced)) = to_records example_loaded"
proof -
  have "example_coerced = example_df \<or> example_coerced = example_coerced"
    by simp
  note r = load_twice_one_copy [OF example_wf example_not_empty example_push this example_push_again]
  have "filter (date_ge ''2024-01-14'') (to_records (rename example_coerced)) = to_records example_loaded"
    by code_simp
  with r show ?thesis
    using example_wf example_not_empty example_push example_push_again
    unfolding example_previous_date_again by simp
qed



text \<open>
  Claim C3 (integer coercion). Whatever frame \<open>a\<close> the load hands to the append, each of
  the seven count columns keeps its label and holds integers only: a missing value has
  become 0, a float within the 64-bit range its truncation (3.0 gives 3), and an
  integer is unchanged.
\<close>

theorem load_coerces_count_columns:
  assumes "wf_df df" and "\<not> df_empty df"
    and "push_to_bigquery e df st = (res, df', st')"
    and "AppendRows a \<in> set (new_events st st')"
  shows "length (rows a) = length (rows df)
       \<and> (\<forall>j<length (columns df). columns df ! j \<in> set int_cols \<longrightarrow>
            columns a ! j = columns df ! j
          \<and> (\<forall>i<length (rows df).
                (\<exists>n. rows a ! i ! j = IntV n)
              \<and> (rows df ! i ! j = NaN \<longrightarrow> rows a ! i ! j = IntV 0)
              \<and> (\<forall>q. rows df ! i ! j = Num q \<and> in_int64 (trunc q)
                     \<longrightarrow> rows a ! i ! j = IntV (trunc q))
              \<and> (\<forall>n. rows df ! i ! j = IntV n \<longrightarrow> rows a ! i ! j = IntV n)))"
proof -
  from appended_frame [OF assms(2,3,4)]
  have co: "coerce_int_cols e df = Inr df'" and a: "a = rename df'" by simp_all
  have cols: "columns df' = columns df"
    using co by (rule coerce_int_cols_Inr)
  have len: "length (rows a) = length (rows df)"
    using coerce_int_cols_rows(1) [OF co] a by (simp add: rename_def)
  have rows: "rows a = rows df'"
    using a by (simp add: rename_def)
  have name: "columns a ! j = columns df ! j"
    if "j < length (columns df)" "columns df ! j \<in> set int_cols" for j
    using that a cols by (simp add: rename_def rename_col_count)
  have cell: "astype_int e (fillna0 (rows df ! i ! j)) = Some (rows a ! i ! j)"
    if "j < length (columns df)" "columns df ! j \<in> set int_cols" "i < length (rows df)" for i j
    using coerced_cell [OF assms(1) co that(3) that(1)] that(2) rows by simp
  have "(\<exists>n. rows a ! i ! j = IntV n)
      \<and> (rows df ! i ! j = NaN \<longrightarrow> rows a ! i ! j = IntV 0)
      \<and> (\<forall>q. rows df ! i ! j = Num q \<and> in_int64 (trunc q) \<longrightarrow> rows a ! i ! j = IntV (trunc q))
      \<and> (\<forall>n. rows df ! i ! j = IntV n \<longrightarrow> rows a ! i ! j = IntV n)"
    if "j < length (columns df)" "columns df ! j \<in> set int_cols" "i < length (rows df)" for i j
    using cell [OF that] astype_fillna_IntV [OF cell [OF that]]
    by (auto simp: trunc_0 in_int64_0)
  with len name show ?thesis by simp
qed

theorem load_coerces_count_columns_witness:
  "wf_df example_df \<and> \<not> df_empty example_df
   \<and> push_to_bigquery example_env example_df example_state = (Inr (), example_coerced, example_final)
   \<and> AppendRows example_loaded \<in> set (new_events example_state example_final)
   \<and> columns example_df ! 5 = ''PAGE_VIEWS'' \<and> rows example_df ! 0 ! 5 = NaN
   \<and> rows example_loaded ! 0 ! 5 = IntV 0
   \<and> columns example_df ! 7 = ''CLICKS'' \<and> rows example_df ! 0 ! 7 = Num 3
   \<and> rows example_loaded ! 0 ! 7 = IntV 3"
proof -
  note r = load_coerces_count_columns [OF example_wf example_not_empty example_push example_appended]
  have c: "columns example_df ! 5 = ''PAGE_VIEWS'' \<and> rows example_df ! 0 ! 5 = NaN
         \<and> columns example_df ! 7 = ''CLICKS'' \<and> rows example_df ! 0 ! 7 = Num 3"
    by code_simp
  have n: "(5::nat) < length (columns example_df) \<and> (7::nat) < length (columns example_df)
         \<and> (0::nat) < length (rows example_df)
         \<and> columns example_df ! 5 \<in> set int_cols \<and> columns example_df ! 7 \<in> set int_cols
         \<and> in_int64 (trunc 3) \<and> trunc 3 = 3"
    by code_simp
  from r c n have "rows example_loaded ! 0 ! 5 = IntV 0"
    by blast
  moreover from r c n have "rows example_loaded ! 0 ! 7 = IntV (trunc 3)"
    by blast
  ultimately show ?thesis
    using example_wf example_not_empty example_push example_appended c n by simp
qed

text \<open>
  Claim C4 (column rename). In the frame \<open>a\<close> the load hands to the append the column
  \<open>AD_REQUESTS_CTR\<close> is called \<open>ctr\<close> and \<open>COST_PER_CLICK\<close> is called \<open>cpc\<close>, neither old
  label remains, every other column keeps its label, the rows are those of the coerced
  table \<open>df'\<close>, and every column that is not a count column (the two renamed ones among
  them) holds the values it held in the input.
\<close>

theorem load_renames_rate_columns:
  assumes "wf_df df" and "\<not> df_empty df"
    and "push_to_bigquery e df st = (res, df', st')"
    and "AppendRows a \<in> set (new_events st st')"
  shows "columns a = map rename_col (columns df)
       \<and> ''AD_REQUESTS_CTR'' \<notin> set (columns a) \<and> ''COST_PER_CLICK'' \<notin> set (columns a)
       \<and> rows a = rows df' \<and> length (rows a) = length (rows df)
       \<and> (\<forall>j<length (columns df).
            (columns df ! j = ''AD_REQUESTS_CTR'' \<longrightarrow> columns a ! j = ''ctr'')
          \<and> (columns df ! j = ''COST_PER_CLICK'' \<longrightarrow> columns a ! j = ''cpc'')
          \<and> (columns df ! j \<noteq> ''AD_REQUESTS_CTR'' \<and> columns df ! j \<noteq> ''COST_PER_CLICK''
               \<longrightarrow> columns a ! j = columns df ! j)
          \<and> (columns df ! j \<notin> set int_cols
               \<longrightarrow> (\<forall>i<length (rows df). rows a ! i ! j = rows df ! i ! j)))"
proof -
  from appended_frame [OF assms(2,3,4)]
  have co: "coerce_int_cols e df = Inr df'" and a: "a = rename df'" by simp_all
  have cols: "columns df' = columns df"
    using co by (rule coerce_int_cols_Inr)
  have len: "length (rows df') = length (rows df)"
    using co by (rule coerce_int_cols_rows)
  have c1: "columns a = map rename_col (columns df)"
    using a cols by (simp add: rename_def)
  have c2: "''AD_REQUESTS_CTR'' \<notin> set (columns a) \<and> ''COST_PER_CLICK'' \<notin> set (columns a)"
    unfolding c1 by (auto simp: rename_col_def)
  have c3: "rows a = rows df'"
    using a by (simp add: rename_def)
  have c5: "rows a ! i ! j = rows df ! i ! j"
    if "j < length (columns df)" "columns df ! j \<notin> set int_cols" "i < length (rows df)" for i j
    using coerced_cell [OF assms(1) co that(3) that(1)] that(2) c3 by simp
  show ?thesis
    using c1 c2 c3 len c5 by (simp add: rename_col_def)
qed

theorem load_renames_rate_columns_witness:
  "wf_df example_df \<and> \<not> df_empty example_df
   \<and> push_to_bigquery example_env example_df example_state = (Inr (), example_coerced, example_final)
   \<and> AppendRows example_loaded \<in> set (new_events example_state example_final)
   \<and> columns example_df ! 8 = ''AD_REQUESTS_CTR'' \<and> columns example_loaded ! 8 = ''ctr''
   \<and> columns example_df ! 9 = ''COST_PER_CLICK'' \<and> columns example_loaded ! 9 = ''cpc''
   \<and> rows example_loaded ! 0 ! 8 = Num (12 / 100) \<and> rows example_loaded ! 0 ! 9 = Num (1 / 2)
   \<and> ''AD_REQUESTS_CTR'' \<notin> set (columns example_loaded)
   \<and> ''COST_PER_CLICK'' \<notin> set (columns example_loaded)"
proof -
  note r = load_renames_rate_columns [OF example_wf example_not_empty example_push example_appended]
  have c: "columns example_df ! 8 = ''AD_REQUESTS_CTR'' \<and> columns example_df ! 9 = ''COST_PER_CLICK''"
    by code_simp
  have v: "rows example_df ! 0 ! 8 = Num (12 / 100) \<and> rows example_df ! 0 ! 9 = Num (1 / 2)"
    by code_simp
  have n: "(8::nat) < length (columns example_df) \<and> (9::nat) < length (columns example_df)
           \<and> (0::nat) < length (rows example_df)
           \<and> columns example_df ! 8 \<notin> set int_cols \<and> columns example_df ! 9 \<notin> set int_cols"
    by code_simp
  from r have "''AD_REQUESTS_CTR'' \<notin> set (columns example_loaded)
             \<and> ''COST_PER_CLICK'' \<notin> set (columns example_loaded)"
    by blast
  moreover from r c n have "columns example_loaded ! 8 = ''ctr'' \<and> columns example_loaded ! 9 = ''cpc''"
    by blast
  moreover from r n v have "rows example_loaded ! 0 ! 8 = Num (12 / 100) \<and> rows example_loaded ! 0 ! 9 = Num (1 / 2)"
    by metis
  ultimately show ?thesis
    using example_wf example_not_empty example_push example_appended c by blast
qed

text \<open>
  Claim C10 (in-place coercion, local rename). After the load has returned for a
  non-empty table, the caller's table \<open>df'\<close> is the input with its count columns filled
  and cast to integers and every other cell unchanged; its labels are the input's
  labels, so the rename is not visible to the caller; the frame that was appended is
  another one, with the renamed labels and the same rows.
\<close>

theorem load_mutates_callers_table:
  assumes "wf_df df" and "\<not> df_empty df"
    and "push_to_bigquery e df st = (Inr (), df', st')"
  shows "coerce_int_cols e df = Inr df'
       \<and> columns df' = columns df \<and> length (rows df') = length (rows df)
       \<and> (\<forall>i<length (rows df). \<forall>j<length (columns df).
            if columns df ! j \<in> set int_cols
            then astype_int e (fillna0 (rows df ! i ! j)) = Some (rows df' ! i ! j)
               \<and> (\<exists>n. rows df' ! i ! j = IntV n)
            else rows df' ! i ! j = rows df ! i ! j)
       \<and> (\<exists>a. AppendRows a \<in> set (new_events st st')
            \<and> columns a = map rename_col (columns df') \<and> rows a = rows df')"
proof -
  have co: "coerce_int_cols e df = Inr df'"
    using assms(2,3) by (rule push_to_bigquery_returns)
  have ev: "new_events st st' = [DeleteQuery (previous_date e st), DeleteCompleted, AppendRows (rename df')]"
    using assms(2,3) by (rule push_to_bigquery_returns)
  have cols: "columns df' = columns df"
    using co by (rule coerce_int_cols_Inr)
  have len: "length (rows df') = length (rows df)"
    using co by (rule coerce_int_cols_rows)
  have cell: "if columns df ! j \<in> set int_cols
        then astype_int e (fillna0 (rows df ! i ! j)) = Some (rows df' ! i ! j)
           \<and> (\<exists>n. rows df' ! i ! j = IntV n)
        else rows df' ! i ! j = rows df ! i ! j"
    if "i < length (rows df)" "j < length (columns df)" for i j
    using coerced_cell [OF assms(1) co that] astype_fillna_IntV [of e "rows df ! i ! j" "rows df' ! i ! j"]
    by (auto split: if_splits)
  have "AppendRows (rename df') \<in> set (new_events st st')
      \<and> columns (rename df') = map rename_col (columns df') \<and> rows (rename df') = rows df'"
    using ev by (simp add: rename_def)
  then have "\<exists>a. AppendRows a \<in> set (new_events st st')
      \<and> columns a = map rename_col (columns df') \<and> rows a = rows df'" ..
  with co cols len cell show ?thesis by simp
qed

theorem load_mutates_callers_table_witness:
  "wf_df example_df \<and> \<not> df_empty example_df
   \<and> push_to_bigquery example_env example_df example_state = (Inr (), example_coerced, example_final)
   \<and> coerce_int_cols example_env example_df = Inr example_coerced
   \<and> columns example_coerced = columns example_df
   \<and> ''AD_REQUESTS_CTR'' \<in> set (columns example_coerced)
   \<and> rows example_df ! 0 ! 5 = NaN \<and> rows example_coerced ! 0 ! 5 = IntV 0"
proof -
  note r = load_mutates_callers_table [OF example_wf example_not_empty example_push]
  have c: "''AD_REQUESTS_CTR'' \<in> set (columns example_df) \<and> rows example_df ! 0 ! 5 = NaN
         \<and> rows example_coerced ! 0 ! 5 = IntV 0"
    by code_simp
  from r have "coerce_int_cols example_env example_df = Inr example_coerced
             \<and> columns example_coerced = columns example_df"
    by blast
  with c show ?thesis
    using example_wf example_not_empty example_push by simp
qed


section \<open>Fetching and merging: claims C5 to C9\<close>

text \<open>
  Claim C5 (empty table). The load of an empty table returns at once and leaves the
  table and the state as they are. When the consolidated table is empty,
  \<^verbatim>\<open>process_reports\<close> ends without an error, the warehouse table is unchanged and no
  call has reached the warehouse. When every credential set lists no account the
  consolidated table is the empty frame. And once the constructor has succeeded the
  script is \<^verbatim>\<open>process_reports\<close>.
\<close>

theorem empty_table_is_noop:
  "(df_empty df \<longrightarrow> push_to_bigquery e df st = (Inr (), df, st))
   \<and> (df_empty (consolidated e (ticks st))
        \<longrightarrow> fst (process_reports e st) = Inr ()
          \<and> table (snd (process_reports e st)) = table st
          \<and> filter is_warehouse_call (new_events st (snd (process_reports e st))) = [])
   \<and> (listed e 1 = [] \<and> listed e 2 = [] \<and> listed e 3 = [] \<and> listed e 4 = []
        \<longrightarrow> consolidated e t = DataFrame_empty \<and> df_empty (consolidated e t))
   \<and> (AdSenseReportProcessor_init e = Inr () \<longrightarrow> main e st = process_reports e st)"
proof -
  have "df_empty df \<longrightarrow> push_to_bigquery e df st = (Inr (), df, st)"
    by (simp add: push_to_bigquery_def)
  moreover have "fst (process_reports e st) = Inr ()
          \<and> table (snd (process_reports e st)) = table st
          \<and> filter is_warehouse_call (new_events st (snd (process_reports e st))) = []"
    if "df_empty (consolidated e (ticks st))"
    using that
    by (simp add: process_reports_eq collect_reports_eq new_events_def calls_from_no_warehouse)
  moreover have "consolidated e t = DataFrame_empty \<and> df_empty (consolidated e t)"
    if "listed e 1 = [] \<and> listed e 2 = [] \<and> listed e 3 = [] \<and> listed e 4 = []"
    using that by (simp add: consolidated_def DataFrame_empty_def df_empty_def)
  moreover have "AdSenseReportProcessor_init e = Inr () \<longrightarrow> main e st = process_reports e st"
    by (simp add: main_def)
  ultimately show ?thesis by blast
qed

theorem empty_table_is_noop_witness:
  "listed example_env 1 = [] \<and> listed example_env 2 = [] \<and> listed example_env 3 = []
   \<and> listed example_env 4 = []
   \<and> AdSenseReportProcessor_init example_env = Inr ()
   \<and> df_empty (consolidated example_env (ticks example_state))
   \<and> fst (main example_env example_state) = Inr ()
   \<and> table (snd (main example_env example_state)) = table example_state
   \<and> filter is_warehouse_call (new_events example_state (snd (main example_env example_state))) = []"
proof -
  note r = empty_table_is_noop
    [where df = DataFrame_empty and e = example_env and st = example_state
       and t = "ticks example_state"]
  from r example_no_accounts have e: "df_empty (consolidated example_env (ticks example_state))"
    by blast
  from r example_init have m: "main example_env example_state = process_reports example_env example_state"
    by blast
  from r e have "fst (process_reports example_env example_state) = Inr ()
     \<and> table (snd (process_reports example_env example_state)) = table example_state
     \<and> filter is_warehouse_call
          (new_events example_state (snd (process_reports example_env example_state))) = []"
    by blast
  with e m show ?thesis
    using example_no_accounts example_init by simp
qed

text \<open>
  Claim C6 (fetch_report never raises). For every credential set, account and state
  \<^verbatim>\<open>fetch_report\<close> returns a frame. Whenever the body of its \<^verbatim>\<open>try\<close> block raises, in
  particular when the request fails, the frame is the empty one, which has no rows; a
  response without the key \<open>rows\<close> gives the empty frame too.
\<close>

theorem fetch_report_never_raises:
  "(\<exists>df. fst (fetch_report e n account_id st) = Inr df)
   \<and> (\<forall>err. fetch_report_try e n account_id (window_start e (ticks st)) (window_end e (ticks st)) = Inl err
          \<longrightarrow> fst (fetch_report e n account_id st) = Inr DataFrame_empty)
   \<and> (reports_generate (source e n) account_id (window_start e (ticks st)) (window_end e (ticks st)) = None
          \<longrightarrow> fst (fetch_report e n account_id st) = Inr DataFrame_empty)
   \<and> (\<forall>report. reports_generate (source e n) account_id (window_start e (ticks st)) (window_end e (ticks st))
                   = Some report \<and> report_rows report = None
          \<longrightarrow> fst (fetch_report e n account_id st) = Inr DataFrame_empty)
   \<and> rows DataFrame_empty = []"
proof -
  have r: "fst (fetch_report e n account_id st) = Inr (report_frame e n account_id (ticks st))"
    by (simp add: fetch_report_eq)
  have "report_frame e n account_id (ticks st) = DataFrame_empty"
    if "fetch_report_try e n account_id (window_start e (ticks st)) (window_end e (ticks st)) = Inl err" for err
    using that by (simp add: report_frame_def)
  moreover have "report_frame e n account_id (ticks st) = DataFrame_empty"
    if "reports_generate (source e n) account_id (window_start e (ticks st)) (window_end e (ticks st)) = None"
    using that by (simp add: report_frame_def fetch_report_try_def orraise_def ebind_def)
  moreover have "report_frame e n account_id (ticks st) = DataFrame_empty"
    if "reports_generate (source e n) account_id (window_start e (ticks st)) (window_end e (ticks st)) = Some report"
      and "report_rows report = None" for report
    using that by (simp add: report_frame_def fetch_report_try_def orraise_def ebind_def)
  ultimately show ?thesis
    using r by (simp add: DataFrame_empty_def)
qed

theorem fetch_report_never_raises_witness:
  "reports_generate (source partial_env 3) ''accounts/pub-3a'' (2024, 1, 14) (2024, 1, 15) = None
   \<and> fst (fetch_report partial_env 3 ''accounts/pub-3a'' example_state) = Inr DataFrame_empty
   \<and> reports_generate (source partial_env 3) ''accounts/pub-3c'' (2024, 1, 14) (2024, 1, 15)
       = Some \<lparr>report_headers = Some example_headers, report_rows = None\<rparr>
   \<and> fst (fetch_report partial_env 3 ''accounts/pub-3c'' example_state) = Inr DataFrame_empty"
proof -
  note a = fetch_report_never_raises [of partial_env 3 "''accounts/pub-3a''" example_state]
  note c = fetch_report_never_raises [of partial_env 3 "''accounts/pub-3c''" example_state]
  from a have "fst (fetch_report partial_env 3 ''accounts/pub-3a'' example_state) = Inr DataFrame_empty"
    using partial_request_fails partial_window by simp
  moreover from c have "fst (fetch_report partial_env 3 ''accounts/pub-3c'' example_state) = Inr DataFrame_empty"
    using partial_no_rows_key partial_window by simp
  ultimately show ?thesis
    using partial_request_fails partial_no_rows_key by simp
qed



text \<open>
  Claim C8, as amended (an authentication failure ends the run). When
  \<^verbatim>\<open>authenticate\<close> raises for any of the four credential sets, the constructor of the
  processor raises, and the script ends with that error in the state it started in: no
  account is listed, no report is fetched and nothing reaches the warehouse.
\<close>

theorem auth_failure_aborts_run:
  assumes "n \<in> {1, 2, 3, 4}" and "authenticate (source e n) = Inl err"
  shows "\<exists>err'. AdSenseReportProcessor_init e = Inl err' \<and> main e st = (Inl err', st)"
proof -
  have "\<exists>err'. AdSenseReportProcessor_init e = Inl err'"
  proof (cases "authenticate (source e 1)")
    case (Inl e1)
    then show ?thesis by (simp add: AdSenseReportProcessor_init_def ebind_Inl)
  next
    case r1: (Inr u1)
    show ?thesis
    proof (cases "authenticate (source e 2)")
      case (Inl e2)
      with r1 show ?thesis by (simp add: AdSenseReportProcessor_init_def ebind_Inl ebind_Inr)
    next
      case r2: (Inr u2)
      show ?thesis
      proof (cases "authenticate (source e 3)")
        case (Inl e3)
        with r1 r2 show ?thesis by (simp add: AdSenseReportProcessor_init_def ebind_Inl ebind_Inr)
      next
        case r3: (Inr u3)
        from assms r1 r2 r3 have "authenticate (source e 4) = Inl err" by auto
        with r1 r2 r3 show ?thesis by (simp add: AdSenseReportProcessor_init_def ebind_Inl ebind_Inr)
      qed
    qed
  qed
  then show ?thesis by (auto simp: main_def)
qed

theorem auth_failure_aborts_run_witness:
  "(2::nat) \<in> {1, 2, 3, 4}
   \<and> authenticate (source auth_failure_env 2) = Inl RefreshError
   \<and> (\<exists>err'. AdSenseReportProcessor_init auth_failure_env = Inl err'
              \<and> main auth_failure_env example_state = (Inl err', example_state))"
proof -
  have n: "(2::nat) \<in> {1, 2, 3, 4}" by simp
  from auth_failure_aborts_run [OF n auth_failure_source_2, of example_state] show ?thesis
    using n auth_failure_source_2 by blast
qed

text \<open>
  Claim C8 as stated fails. In \<open>auth_failure_env\<close> only the second credential set cannot
  authenticate; the first one authenticates, lists an account and would fetch a row
  for it. The script still ends with the refresh error, in the state it started in,
  whose trace is empty: the other credential sets never fetched.
\<close>

theorem auth_failure_isolated_counterexample:
  "authenticate (source auth_failure_env 1) = Inr ()
   \<and> authenticate (source auth_failure_env 2) = Inl RefreshError
   \<and> authenticate (source auth_failure_env 3) = Inr ()
   \<and> authenticate (source auth_failure_env 4) = Inr ()
   \<and> listed auth_failure_env 1 = [''accounts/pub-1'']
   \<and> rows (report_frame auth_failure_env 1 ''accounts/pub-1'' 0) = [rows partial_table ! 0]
   \<and> main auth_failure_env example_state = (Inl RefreshError, example_state)
   \<and> trace example_state = []"
  by code_simp




end
